theory Spec2Isabelle
  imports Main "HOL-Library.Sublist"
begin

section \<open>The scaffolding orchestrator of \<open>cli/src/tasks/create.ts\<close>\<close>

text \<open>
  \<open>createCommand\<close> is a chain of awaited calls on external collaborators inside one
  \<open>try\<close>/\<open>catch\<close>. The embedding keeps that shape: every call the source makes on the
  outside world (a validation check, a prompt, a filesystem primitive, a subprocess, a
  platform generator, a line of console output) is recorded as an \<open>event\<close>, in call order,
  in the \<open>trace\<close> of the run; what the outside world answers is read from a \<open>world\<close>.
  An action either returns a value, throws a JavaScript value, or ends the process.

  An argument the caller did not give is the empty string: the source tests \<open>!dir\<close>,
  \<open>!name\<close> and \<open>!id\<close>, which hold for the empty string and for \<open>undefined\<close> alike.
  The collaborators are opaque: a call is recorded and may reject, and the fields of the
  configuration that \<open>create.ts\<close> reads are changed by \<open>create.ts\<close> only. A prompt is
  always answered.
\<close>

subsection \<open>Data\<close>

text \<open>
  Modelled from the spec: the enum \<open>OS\<close> of \<open>../definitions\<close> is not among the sources;
  the spec only separates macOS from every other host. The source compares
  \<open>config.cli.os == OS.Mac\<close>.
\<close>

datatype OS = Unknown | Mac | Windows | Linux

text \<open>The fields of \<open>Config\<close> that \<open>create.ts\<close> reads or writes.\<close>

record Config =
  cli_os :: OS
  app_rootDir :: string
  app_appName :: string
  app_appId :: string
  app_bundledWebRuntime :: bool
  app_assets_templateDir :: string
  web_name :: string
  ios_name :: string
  android_name :: string

text \<open>
  A thrown JavaScript value. The \<open>catch\<close> block only asks \<open>typeof e === 'string'\<close>, so the
  model separates strings from every other value (an \<open>Error\<close> object, say, kept by its
  message).
\<close>

datatype thrown = StringValue string | OtherValue string

fun is_string :: "thrown \<Rightarrow> bool" where
  "is_string (StringValue _) = True"
| "is_string (OtherValue _) = False"

text \<open>Calls on the outside world, with the arguments the source passes.\<close>

datatype event =
    CheckAppDir string
  | CheckAppId string
  | CheckAppName string
  | Log string
  | Prompt string "string option" string
  | ExistsAsync string
  | MkdirAsync string
  | SetCurrentWorkingDir string
  | GetOrCreateConfig
  | TaskStart string
  | TaskDone string
  | CpAsync string string
  | RunCommand string
  | AddIOS
  | AddAndroid
  | Sync string
  | EditProjectSettingsIOS
  | EditProjectSettingsAndroid
  | Copy string
  | LogFatal thrown
  | Exit nat

text \<open>
  The outside world of one run. The three validation predicates of \<open>../common\<close> answer
  \<open>None\<close> (pass) or a descriptive string; \<open>w_answer\<close> is what the user types at the prompt
  of that name; \<open>w_exists\<close> is the answer of \<open>existsAsync\<close>; \<open>w_outcome\<close> says, from the
  calls made so far, whether a collaborator call rejects and with which value;
  \<open>w_colour\<close> is whether chalk emits ANSI styles, \<open>w_emoji\<close> is \<open>emoji\<close> of
  \<open>../util/emoji\<close>, \<open>w_cliVersion\<close> the \<open>version\<close> of \<open>package.json\<close>.
\<close>

record world =
  w_checkAppDir :: "Config \<Rightarrow> string \<Rightarrow> string option"
  w_checkAppId :: "Config \<Rightarrow> string \<Rightarrow> string option"
  w_checkAppName :: "Config \<Rightarrow> string \<Rightarrow> string option"
  w_answer :: "string \<Rightarrow> string"
  w_exists :: "string \<Rightarrow> bool"
  w_outcome :: "event list \<Rightarrow> event \<Rightarrow> thrown option"
  w_colour :: bool
  w_emoji :: "string \<Rightarrow> string \<Rightarrow> string"
  w_cliVersion :: string

record state =
  cfg :: Config
  trace :: "event list"

datatype 'a outcome = Return 'a | Throw thrown | Exited nat

type_synonym 'a io = "state \<Rightarrow> 'a outcome \<times> state"

subsection \<open>Sequencing, exceptions and calls\<close>

definition io_return :: "'a \<Rightarrow> 'a io" where
  "io_return a s = (Return a, s)"

definition io_throw :: "thrown \<Rightarrow> 'a io" where
  "io_throw e s = (Throw e, s)"

text \<open>\<open>await m; k\<close>: a rejection or the end of the process skips \<open>k\<close>.\<close>

definition io_bind :: "'a io \<Rightarrow> ('a \<Rightarrow> 'b io) \<Rightarrow> 'b io" where
  "io_bind m k s =
     (case m s of
        (Return a, s') \<Rightarrow> k a s'
      | (Throw e, s') \<Rightarrow> (Throw e, s')
      | (Exited n, s') \<Rightarrow> (Exited n, s'))"

text \<open>\<open>try { m } catch (e) { h e }\<close>: only a thrown value reaches the handler.\<close>

definition io_catch :: "'a io \<Rightarrow> (thrown \<Rightarrow> 'a io) \<Rightarrow> 'a io" where
  "io_catch m h s =
     (case m s of
        (Throw e, s') \<Rightarrow> h e s'
      | r \<Rightarrow> r)"

definition emit :: "event \<Rightarrow> unit io" where
  "emit ev s = (Return (), s\<lparr>trace := trace s @ [ev]\<rparr>)"

text \<open>A call on a collaborator that may reject: the call is recorded, then the world decides.\<close>

definition perform :: "world \<Rightarrow> event \<Rightarrow> unit io" where
  "perform w ev s =
     (case w_outcome w (trace s) ev of
        None \<Rightarrow> (Return (), s\<lparr>trace := trace s @ [ev]\<rparr>)
      | Some e \<Rightarrow> (Throw e, s\<lparr>trace := trace s @ [ev]\<rparr>))"

definition get_config :: "Config io" where
  "get_config s = (Return (cfg s), s)"

definition modify_config :: "(Config \<Rightarrow> Config) \<Rightarrow> unit io" where
  "modify_config f s = (Return (), s\<lparr>cfg := f (cfg s)\<rparr>)"

subsection \<open>Libraries: chalk, path, inquirer\<close>

definition ESC :: string where
  "ESC = [CHR 0x1B]"

text \<open>
  A chalk style, given by its opening and its closing code, applied to a string (chalk 2,
  \<open>applyStyle\<close>). Without colour support, and on the empty string, the string is returned
  as it is. Otherwise every closing code inside the string is replaced by the opening
  code, the string is put between the opening and the closing code, and the style is
  closed before every line break (\<open>\n\<close> or \<open>\r\n\<close>) and opened again after it.
\<close>

fun replace_all :: "string \<Rightarrow> string \<Rightarrow> string \<Rightarrow> string" where
  "replace_all pat rep [] = []"
| "replace_all pat rep (c # cs) =
     (if pat \<noteq> [] \<and> prefix pat (c # cs)
      then rep @ replace_all pat rep (drop (length pat - 1) cs)
      else c # replace_all pat rep cs)"

fun reopen_at_breaks :: "string \<Rightarrow> string \<Rightarrow> string \<Rightarrow> string" where
  "reopen_at_breaks opn cls [] = []"
| "reopen_at_breaks opn cls [c] = (if c = CHR 0x0A then cls @ [c] @ opn else [c])"
| "reopen_at_breaks opn cls (c # d # cs) =
     (if c = CHR 0x0D \<and> d = CHR 0x0A then cls @ [c, d] @ opn @ reopen_at_breaks opn cls cs
      else if c = CHR 0x0A then cls @ [c] @ opn @ reopen_at_breaks opn cls (d # cs)
      else c # reopen_at_breaks opn cls (d # cs))"

definition chalk_style :: "world \<Rightarrow> string \<Rightarrow> string \<Rightarrow> string \<Rightarrow> string" where
  "chalk_style w opn cls s =
     (if \<not> w_colour w \<or> s = [] then s
      else reopen_at_breaks opn cls (opn @ replace_all cls opn s @ cls))"

definition chalk_bold :: "world \<Rightarrow> string \<Rightarrow> string" where
  "chalk_bold w s = chalk_style w (ESC @ ''[1m'') (ESC @ ''[22m'') s"

definition chalk_green :: "world \<Rightarrow> string \<Rightarrow> string" where
  "chalk_green w s = chalk_style w (ESC @ ''[32m'') (ESC @ ''[39m'') s"

text \<open>POSIX \<open>path.basename\<close>: trailing slashes are dropped, then the last segment is kept.\<close>

definition basename :: "string \<Rightarrow> string" where
  "basename p =
     rev (takeWhile (\<lambda>c. c \<noteq> CHR ''/'') (dropWhile (\<lambda>c. c = CHR ''/'') (rev p)))"

text \<open>
  \<open>inquirer.prompt\<close> with one question of type \<open>input\<close>: the answer is what the user
  typed, or the question's \<open>default\<close> when nothing was typed (the empty string when the
  question has no default).
\<close>

definition inquirer_prompt :: "world \<Rightarrow> string \<Rightarrow> string option \<Rightarrow> string \<Rightarrow> string io" where
  "inquirer_prompt w name dflt message =
     io_bind (emit (Prompt name dflt message)) (\<lambda>_.
     io_return (if w_answer w name = [] then (case dflt of None \<Rightarrow> [] | Some d \<Rightarrow> d)
                else w_answer w name))"

subsection \<open>Helpers of \<open>../common\<close>\<close>

text \<open>
  Modelled from the spec: \<open>log\<close> of \<open>../common\<close> is not among the sources; it writes one
  line of the run's human-readable output.
\<close>

definition log :: "string \<Rightarrow> unit io" where
  "log msg = emit (Log msg)"

text \<open>
  Modelled from the spec: \<open>logFatal\<close> of \<open>../common\<close> is not among the sources. The spec:
  a fatal failure is reported and "terminates the process with a non-zero status and no
  recovery"; after it "no further steps run".
\<close>

definition logFatal :: "thrown \<Rightarrow> 'a io" where
  "logFatal e s = (Exited 1, s\<lparr>trace := trace s @ [LogFatal e, Exit 1]\<rparr>)"

text \<open>
  Modelled from the spec: \<open>runTask\<close> of \<open>../common\<close> is not among the sources. The spec
  (StepRunner): "prints a start indicator with the step's description, executes the
  action, and on completion prints a success indicator. Propagates the action's failure
  unchanged".
\<close>

definition runTask :: "string \<Rightarrow> 'a io \<Rightarrow> 'a io" where
  "runTask title action =
     io_bind (emit (TaskStart title)) (\<lambda>_.
     io_bind action (\<lambda>r.
     io_bind (emit (TaskDone title)) (\<lambda>_.
     io_return r)))"

text \<open>
  Modelled from the spec: \<open>check\<close> of \<open>../common\<close> is not among the sources. The spec
  (Validator): "given a configuration and an ordered sequence of check functions (each
  taking the configuration and signaling failure via a descriptive value), execute them in
  sequence; on the first failing check, stop immediately and propagate that failure".
  The \<open>catch\<close> block of \<open>createCommand\<close> expects that failure as a thrown string.
\<close>

fun check :: "Config \<Rightarrow> (Config \<Rightarrow> string option io) list \<Rightarrow> unit io" where
  "check config [] = io_return ()"
| "check config (f # fs) =
     io_bind (f config) (\<lambda>r.
       case r of
         None \<Rightarrow> check config fs
       | Some msg \<Rightarrow> io_throw (StringValue msg))"

text \<open>The three validation predicates, as calls: recorded, answered by the world.\<close>

definition checkAppDir :: "world \<Rightarrow> Config \<Rightarrow> string \<Rightarrow> string option io" where
  "checkAppDir w config dir =
     io_bind (emit (CheckAppDir dir)) (\<lambda>_. io_return (w_checkAppDir w config dir))"

definition checkAppId :: "world \<Rightarrow> Config \<Rightarrow> string \<Rightarrow> string option io" where
  "checkAppId w config ident =
     io_bind (emit (CheckAppId ident)) (\<lambda>_. io_return (w_checkAppId w config ident))"

definition checkAppName :: "world \<Rightarrow> Config \<Rightarrow> string \<Rightarrow> string option io" where
  "checkAppName w config name =
     io_bind (emit (CheckAppName name)) (\<lambda>_. io_return (w_checkAppName w config name))"

text \<open>
  Modelled from the spec: \<open>Config.setCurrentWorkingDir\<close> is not among the sources. The
  spec's configuration holds the working directory, and the final report names the
  generated directory, which \<open>printNextSteps\<close> reads back as \<open>config.app.rootDir\<close>.
\<close>

definition setCurrentWorkingDir :: "world \<Rightarrow> string \<Rightarrow> unit io" where
  "setCurrentWorkingDir w dir =
     io_bind (perform w (SetCurrentWorkingDir dir)) (\<lambda>_.
     modify_config (\<lambda>c. c\<lparr>app_rootDir := dir\<rparr>))"

subsection \<open>\<open>create.ts\<close>\<close>

definition getDir :: "world \<Rightarrow> string \<Rightarrow> string io" where
  "getDir w dir =
     (if dir = [] then inquirer_prompt w ''dir'' None ''Directory for new app''
      else io_return dir)"

definition getName :: "world \<Rightarrow> string \<Rightarrow> string io" where
  "getName w name =
     (if name = [] then inquirer_prompt w ''name'' (Some ''App'') ''App name''
      else io_return name)"

definition getAppId :: "world \<Rightarrow> string \<Rightarrow> string io" where
  "getAppId w ident =
     (if ident = [] then inquirer_prompt w ''id'' (Some ''com.example.app'') ''App/Bundle ID''
      else io_return ident)"

definition directoryExistsMessage :: "world \<Rightarrow> string \<Rightarrow> string" where
  "directoryExistsMessage w dir =
     ''The directory '' @ chalk_bold w dir @
     '' already exists. Please remove it before creating your app''"

definition makeDirectory :: "world \<Rightarrow> string \<Rightarrow> unit io" where
  "makeDirectory w dir =
     io_bind (emit (ExistsAsync dir)) (\<lambda>_.
     io_bind (if w_exists w dir then logFatal (StringValue (directoryExistsMessage w dir))
              else io_return ()) (\<lambda>_.
     perform w (MkdirAsync dir)))"

definition createTitle :: "world \<Rightarrow> string \<Rightarrow> string \<Rightarrow> string \<Rightarrow> string" where
  "createTitle w dir appName appId =
     ''Creating app '' @ chalk_bold w appName @ '' in '' @ chalk_bold w dir @
     '' with id '' @ chalk_bold w appId"

definition create :: "world \<Rightarrow> string \<Rightarrow> string \<Rightarrow> string \<Rightarrow> unit io" where
  "create w dir appName appId =
     io_bind get_config (\<lambda>config.
     runTask (createTitle w dir appName appId)
       (perform w (CpAsync (app_assets_templateDir config) dir)))"

definition installCommand :: "string \<Rightarrow> string" where
  "installCommand dir =
     ''cd '' @ [CHR 0x22] @ dir @ [CHR 0x22] @
     '' && npm install --save @capacitor/cli @capacitor/core''"

definition installTitle :: string where
  "installTitle = ''Installing dependencies''"

definition installDeps :: "world \<Rightarrow> string \<Rightarrow> unit io" where
  "installDeps w dir = runTask installTitle (perform w (RunCommand (installCommand dir)))"

definition addPlatformsTitle :: "world \<Rightarrow> string" where
  "addPlatformsTitle w = chalk_green w (chalk_bold w ''add'') @ '' default platforms''"

definition addPlatforms :: "world \<Rightarrow> string \<Rightarrow> unit io" where
  "addPlatforms w dir =
     io_bind get_config (\<lambda>config.
     runTask (addPlatformsTitle w)
       (io_bind (if cli_os config = Mac
                 then io_bind (perform w AddIOS) (\<lambda>_. perform w (Sync (ios_name config)))
                 else io_return ()) (\<lambda>_.
        io_bind (perform w AddAndroid) (\<lambda>_.
        perform w (Sync (android_name config))))))"

definition editPlatforms :: "world \<Rightarrow> string \<Rightarrow> string \<Rightarrow> unit io" where
  "editPlatforms w appName appId =
     io_bind get_config (\<lambda>config.
     io_bind (if cli_os config = Mac then perform w EditProjectSettingsIOS
              else io_return ()) (\<lambda>_.
     perform w EditProjectSettingsAndroid))"

definition readyMessage :: "world \<Rightarrow> string" where
  "readyMessage w = chalk_green w [CHR 0xE2, CHR 0x9C, CHR 0x94] @ '' Your app is ready!''"

definition workflowMessage :: string where
  "workflowMessage =
     ''Get to work by following the Capacitor Development Workflow: '' @
     ''https://capacitor.ionicframework.com/docs/basics/workflow''"

definition nextStepsMessage :: string where
  "nextStepsMessage = [CHR 0x0A] @ ''Next steps:''"

definition changeDirMessage :: "string \<Rightarrow> string" where
  "changeDirMessage rootDir = ''cd ./'' @ basename rootDir"

definition printNextSteps :: "world \<Rightarrow> unit io" where
  "printNextSteps w =
     io_bind get_config (\<lambda>config.
     io_bind (log (readyMessage w)) (\<lambda>_.
     io_bind (log nextStepsMessage) (\<lambda>_.
     io_bind (log (changeDirMessage (app_rootDir config))) (\<lambda>_.
     log workflowMessage))))"

text \<open>The collaborators \<open>getOrCreateConfig\<close> (\<open>../common\<close>) and \<open>copy\<close> (\<open>./copy\<close>), as calls.\<close>

definition getOrCreateConfig :: "world \<Rightarrow> unit io" where
  "getOrCreateConfig w = perform w GetOrCreateConfig"

definition copy :: "world \<Rightarrow> string \<Rightarrow> unit io" where
  "copy w platformName = perform w (Copy platformName)"

definition lightning :: string where
  "lightning = [CHR 0xE2, CHR 0x9A, CHR 0xA1, CHR 0xEF, CHR 0xB8, CHR 0x8F]"

definition welcomeMessage :: "world \<Rightarrow> string" where
  "welcomeMessage w =
     [CHR 0x0A] @
     chalk_bold w (w_emoji w lightning ''*'' @ ''   Welcome to Capacitor (CLI v'' @
                   w_cliVersion w @ '') '' @ w_emoji w lightning ''*'') @
     [CHR 0x0A]"

definition usageMessage :: string where
  "usageMessage = ''Usage: npx @capacitor/cli create appDir appName appId''"

definition exampleMessage :: string where
  "exampleMessage =
     ''Example: npx @capacitor/cli create my-app '' @ [CHR 0x22] @ ''My App'' @ [CHR 0x22] @
     '' '' @ [CHR 0x22] @ ''com.example.myapp'' @ [CHR 0x22]"

text \<open>The body of the \<open>try\<close> block of \<open>createCommand\<close>, statement by statement.\<close>

definition createCommand_try :: "world \<Rightarrow> string \<Rightarrow> string \<Rightarrow> string \<Rightarrow> unit io" where
  "createCommand_try w dir name ident =
     io_bind get_config (\<lambda>config.
     io_bind (check config
                [\<lambda>config. checkAppDir w config dir,
                 \<lambda>config. checkAppId w config ident,
                 \<lambda>config. checkAppName w config name]) (\<lambda>_.
     io_bind (log (welcomeMessage w)) (\<lambda>_.
     io_bind (getDir w dir) (\<lambda>appDir.
     io_bind (makeDirectory w appDir) (\<lambda>_.
     io_bind (setCurrentWorkingDir w appDir) (\<lambda>_.
     io_bind (getName w name) (\<lambda>appName.
     io_bind (getAppId w ident) (\<lambda>appId.
     io_bind (modify_config (\<lambda>c. c\<lparr>app_appName := appName, app_appId := appId,
                                    app_bundledWebRuntime := True\<rparr>)) (\<lambda>_.
     io_bind (getOrCreateConfig w) (\<lambda>_.
     io_bind (create w appDir appName appId) (\<lambda>_.
     io_bind (installDeps w appDir) (\<lambda>_.
     io_bind (addPlatforms w appDir) (\<lambda>_.
     io_bind (editPlatforms w appName appId) (\<lambda>_.
     io_bind get_config (\<lambda>config'.
     io_bind (copy w (web_name config')) (\<lambda>_.
     printNextSteps w))))))))))))))))"

text \<open>The \<open>catch\<close> block of \<open>createCommand\<close>.\<close>

definition createCommand_catch :: "thrown \<Rightarrow> unit io" where
  "createCommand_catch e =
     io_bind (if is_string e
              then io_bind (log usageMessage) (\<lambda>_. log exampleMessage)
              else io_return ()) (\<lambda>_.
     logFatal e)"

definition createCommand :: "world \<Rightarrow> Config \<Rightarrow> string \<Rightarrow> string \<Rightarrow> string \<Rightarrow> unit outcome \<times> state" where
  "createCommand w config dir name ident =
     io_catch (createCommand_try w dir name ident) createCommand_catch
       \<lparr>cfg = config, trace = []\<rparr>"

subsection \<open>What a run calls, when nothing fails\<close>

text \<open>The values \<open>createCommand\<close> binds to \<open>appDir\<close>, \<open>appName\<close> and \<open>appId\<close>.\<close>

definition appDir_of :: "world \<Rightarrow> string \<Rightarrow> string" where
  "appDir_of w dir = (if dir = [] then w_answer w ''dir'' else dir)"

definition appName_of :: "world \<Rightarrow> string \<Rightarrow> string" where
  "appName_of w name =
     (if name = [] then (if w_answer w ''name'' = [] then ''App'' else w_answer w ''name'')
      else name)"

definition appId_of :: "world \<Rightarrow> string \<Rightarrow> string" where
  "appId_of w ident =
     (if ident = []
      then (if w_answer w ''id'' = [] then ''com.example.app'' else w_answer w ''id'')
      else ident)"

text \<open>The prompts \<open>getDir\<close>, \<open>getName\<close> and \<open>getAppId\<close> show: one, or none.\<close>

definition dirPrompt :: "string \<Rightarrow> event list" where
  "dirPrompt dir = (if dir = [] then [Prompt ''dir'' None ''Directory for new app''] else [])"

definition namePrompt :: "string \<Rightarrow> event list" where
  "namePrompt name = (if name = [] then [Prompt ''name'' (Some ''App'') ''App name''] else [])"

definition idPrompt :: "string \<Rightarrow> event list" where
  "idPrompt ident =
     (if ident = [] then [Prompt ''id'' (Some ''com.example.app'') ''App/Bundle ID''] else [])"

text \<open>The collaborator calls of \<open>addPlatforms\<close> and of \<open>editPlatforms\<close> on a host.\<close>

definition addCalls :: "Config \<Rightarrow> event list" where
  "addCalls config =
     (if cli_os config = Mac then [AddIOS, Sync (ios_name config)] else []) @
     [AddAndroid, Sync (android_name config)]"

definition editCalls :: "Config \<Rightarrow> event list" where
  "editCalls config =
     (if cli_os config = Mac then [EditProjectSettingsIOS] else []) @
     [EditProjectSettingsAndroid]"

text \<open>The four lines of \<open>printNextSteps\<close>.\<close>

definition nextSteps :: "world \<Rightarrow> string \<Rightarrow> event list" where
  "nextSteps w rootDir =
     [Log (readyMessage w), Log nextStepsMessage, Log (changeDirMessage rootDir),
      Log workflowMessage]"

text \<open>Lines 34 to 55 of \<open>createCommand\<close>, up to the assignment of the app name and id.\<close>

definition resolutionCalls :: "world \<Rightarrow> string \<Rightarrow> string \<Rightarrow> string \<Rightarrow> event list" where
  "resolutionCalls w dir name ident =
     [CheckAppDir dir, CheckAppId ident, CheckAppName name, Log (welcomeMessage w)] @
     dirPrompt dir @
     [ExistsAsync (appDir_of w dir), MkdirAsync (appDir_of w dir),
      SetCurrentWorkingDir (appDir_of w dir)] @
     namePrompt name @ idPrompt ident"

text \<open>Lines 62 to 71: from the configuration file to the platform settings.\<close>

definition buildCalls :: "world \<Rightarrow> Config \<Rightarrow> string \<Rightarrow> string \<Rightarrow> string \<Rightarrow> event list" where
  "buildCalls w config appDir appName appId =
     [GetOrCreateConfig,
      TaskStart (createTitle w appDir appName appId),
      CpAsync (app_assets_templateDir config) appDir,
      TaskDone (createTitle w appDir appName appId),
      TaskStart installTitle,
      RunCommand (installCommand appDir),
      TaskDone installTitle,
      TaskStart (addPlatformsTitle w)] @
     addCalls config @
     [TaskDone (addPlatformsTitle w)] @
     editCalls config"

definition fullRun :: "world \<Rightarrow> Config \<Rightarrow> string \<Rightarrow> string \<Rightarrow> string \<Rightarrow> event list" where
  "fullRun w config dir name ident =
     resolutionCalls w dir name ident @
     buildCalls w config (appDir_of w dir) (appName_of w name) (appId_of w ident) @
     [Copy (web_name config)] @
     nextSteps w (appDir_of w dir)"

subsection \<open>Kinds of calls, and their order in a trace\<close>




fun is_mkdir :: "event \<Rightarrow> bool" where
  "is_mkdir (MkdirAsync _) = True"
| "is_mkdir _ = False"


text \<open>
  The calls that change the filesystem: creating the directory, writing the configuration
  file, copying the template, running the installer, adding, syncing and editing the
  platform projects, copying the web assets.
\<close>

fun mutating :: "event \<Rightarrow> bool" where
  "mutating (MkdirAsync _) = True"
| "mutating GetOrCreateConfig = True"
| "mutating (CpAsync _ _) = True"
| "mutating (RunCommand _) = True"
| "mutating AddIOS = True"
| "mutating AddAndroid = True"
| "mutating (Sync _) = True"
| "mutating EditProjectSettingsIOS = True"
| "mutating EditProjectSettingsAndroid = True"
| "mutating (Copy _) = True"
| "mutating _ = False"

fun is_platform_call :: "event \<Rightarrow> bool" where
  "is_platform_call AddIOS = True"
| "is_platform_call AddAndroid = True"
| "is_platform_call (Sync _) = True"
| "is_platform_call EditProjectSettingsIOS = True"
| "is_platform_call EditProjectSettingsAndroid = True"
| "is_platform_call _ = False"

fun is_copy :: "event \<Rightarrow> bool" where
  "is_copy (Copy _) = True"
| "is_copy _ = False"


subsection \<open>What the validation predicates reject\<close>


subsection \<open>Sample hosts and worlds\<close>

definition linux_config :: Config where
  "linux_config =
     \<lparr>cli_os = Linux, app_rootDir = ''/home/dev'', app_appName = [], app_appId = [],
      app_bundledWebRuntime = False, app_assets_templateDir = ''/cli/assets/app-template'',
      web_name = ''web'', ios_name = ''ios'', android_name = ''android''\<rparr>"

definition mac_config :: Config where
  "mac_config = linux_config\<lparr>cli_os := Mac\<rparr>"

text \<open>
  Every check passes on what it is given (the runs of \<open>createCommand\<close> in this world are
  given all three arguments), every prompt is answered blank, nothing exists, nothing
  fails.
\<close>

definition quiet_world :: world where
  "quiet_world =
     \<lparr>w_checkAppDir = (\<lambda>_ _. None), w_checkAppId = (\<lambda>_ _. None),
      w_checkAppName = (\<lambda>_ _. None), w_answer = (\<lambda>_. []), w_exists = (\<lambda>_. False),
      w_outcome = (\<lambda>_ _. None), w_colour = False, w_emoji = (\<lambda>_ fallback. fallback),
      w_cliVersion = ''1.0.0''\<rparr>"

text \<open>The target directory \<open>myapp\<close> is already there.\<close>

definition occupied_world :: world where
  "occupied_world = quiet_world\<lparr>w_exists := (\<lambda>d. d = ''myapp'')\<rparr>"

text \<open>
  Checks as the spec describes them: a missing app name is rejected, and so is an app id
  that is missing or malformed (here: one with a space). The user types \<open>myapp\<close> at the
  directory prompt.
\<close>

definition strict_world :: world where
  "strict_world =
     quiet_world
       \<lparr>w_checkAppId :=
          (\<lambda>_ i. if i = [] \<or> CHR '' '' \<in> set i then Some ''Invalid App ID'' else None),
        w_checkAppName := (\<lambda>_ n. if n = [] then Some ''Must provide an app name'' else None),
        w_answer := (\<lambda>q. if q = ''dir'' then ''myapp'' else [])\<rparr>"

text \<open>\<open>mkdirAsync\<close> rejects with an error object.\<close>

definition readonly_world :: world where
  "readonly_world =
     quiet_world
       \<lparr>w_outcome := (\<lambda>_ e. if is_mkdir e then Some (OtherValue ''EACCES'') else None)\<rparr>"

section \<open>Properties\<close>

subsection \<open>Laws of sequencing\<close>

lemma io_bind_return: "io_bind (io_return a) k s = k a s"
  by (simp add: io_bind_def io_return_def)

lemma io_bind_throw: "io_bind (io_throw e) k s = (Throw e, s)"
  by (simp add: io_bind_def io_throw_def)

lemma io_bind_assoc: "io_bind (io_bind m f) k s = io_bind m (\<lambda>a. io_bind (f a) k) s"
  by (simp add: io_bind_def split: prod.splits outcome.splits)

lemma io_bind_emit: "io_bind (emit ev) k s = k () (s\<lparr>trace := trace s @ [ev]\<rparr>)"
  by (simp add: io_bind_def emit_def)

lemma io_bind_log: "io_bind (log m) k s = k () (s\<lparr>trace := trace s @ [Log m]\<rparr>)"
  by (simp add: log_def io_bind_emit)

lemma io_bind_perform:
  "io_bind (perform w ev) k s =
     (case w_outcome w (trace s) ev of
        None \<Rightarrow> k () (s\<lparr>trace := trace s @ [ev]\<rparr>)
      | Some e \<Rightarrow> (Throw e, s\<lparr>trace := trace s @ [ev]\<rparr>))"
  by (simp add: io_bind_def perform_def split: option.splits)

lemma io_bind_get_config: "io_bind get_config k s = k (cfg s) s"
  by (simp add: io_bind_def get_config_def)

lemma io_bind_modify_config:
  "io_bind (modify_config f) k s = k () (s\<lparr>cfg := f (cfg s)\<rparr>)"
  by (simp add: io_bind_def modify_config_def)

lemma io_bind_logFatal:
  "io_bind (logFatal e) k s = (Exited 1, s\<lparr>trace := trace s @ [LogFatal e, Exit 1]\<rparr>)"
  by (simp add: io_bind_def logFatal_def)

lemma io_bind_if:
  "io_bind (if b then m else n) k s = (if b then io_bind m k s else io_bind n k s)"
  by simp

lemma io_bind_case_option:
  "io_bind (case x of None \<Rightarrow> m | Some y \<Rightarrow> n y) k s =
     (case x of None \<Rightarrow> io_bind m k s | Some y \<Rightarrow> io_bind (n y) k s)"
  by (cases x) simp_all

lemma io_bind_unit: "io_bind m io_return s = m s"
  by (simp add: io_bind_def io_return_def split: prod.splits outcome.splits)

lemmas io_laws =
  io_bind_return io_bind_throw io_bind_assoc io_bind_emit io_bind_log io_bind_perform
  io_bind_get_config io_bind_modify_config io_bind_logFatal io_bind_if io_bind_case_option

subsection \<open>The sample worlds\<close>

lemma quiet_world_simps:
  "w_checkAppDir quiet_world c d = None"
  "w_checkAppId quiet_world c i = None"
  "w_checkAppName quiet_world c n = None"
  "w_answer quiet_world q = []"
  "w_exists quiet_world d = False"
  "w_outcome quiet_world t e = None"
  "w_colour quiet_world = False"
  by (simp_all add: quiet_world_def)

subsection \<open>Each function of \<open>create.ts\<close>, followed by the rest of the run\<close>

lemma bind_checks:
  "io_bind (check config
              [\<lambda>config. checkAppDir w config dir,
               \<lambda>config. checkAppId w config ident,
               \<lambda>config. checkAppName w config name]) k s =
     (case w_checkAppDir w config dir of
        Some m \<Rightarrow> (Throw (StringValue m), s\<lparr>trace := trace s @ [CheckAppDir dir]\<rparr>)
      | None \<Rightarrow>
     (case w_checkAppId w config ident of
        Some m \<Rightarrow>
          (Throw (StringValue m), s\<lparr>trace := trace s @ [CheckAppDir dir, CheckAppId ident]\<rparr>)
      | None \<Rightarrow>
     (case w_checkAppName w config name of
        Some m \<Rightarrow>
          (Throw (StringValue m),
           s\<lparr>trace := trace s @ [CheckAppDir dir, CheckAppId ident, CheckAppName name]\<rparr>)
      | None \<Rightarrow>
          k () (s\<lparr>trace := trace s @ [CheckAppDir dir, CheckAppId ident, CheckAppName name]\<rparr>))))"
  by (simp add: checkAppDir_def checkAppId_def checkAppName_def io_laws split: option.splits)

lemma bind_getDir:
  "io_bind (getDir w dir) k s = k (appDir_of w dir) (s\<lparr>trace := trace s @ dirPrompt dir\<rparr>)"
  by (simp add: getDir_def inquirer_prompt_def appDir_of_def dirPrompt_def io_laws)

lemma bind_getName:
  "io_bind (getName w name) k s = k (appName_of w name) (s\<lparr>trace := trace s @ namePrompt name\<rparr>)"
  by (simp add: getName_def inquirer_prompt_def appName_of_def namePrompt_def io_laws)

lemma bind_getAppId:
  "io_bind (getAppId w ident) k s = k (appId_of w ident) (s\<lparr>trace := trace s @ idPrompt ident\<rparr>)"
  by (simp add: getAppId_def inquirer_prompt_def appId_of_def idPrompt_def io_laws)

lemma bind_makeDirectory:
  "io_bind (makeDirectory w dir) k s =
     (if w_exists w dir
      then (Exited 1,
            s\<lparr>trace := trace s @ [ExistsAsync dir,
                 LogFatal (StringValue (directoryExistsMessage w dir)), Exit 1]\<rparr>)
      else (case w_outcome w (trace s @ [ExistsAsync dir]) (MkdirAsync dir) of
              None \<Rightarrow> k () (s\<lparr>trace := trace s @ [ExistsAsync dir, MkdirAsync dir]\<rparr>)
            | Some e \<Rightarrow> (Throw e, s\<lparr>trace := trace s @ [ExistsAsync dir, MkdirAsync dir]\<rparr>)))"
  by (simp add: makeDirectory_def io_laws split: option.splits)

lemma bind_setCurrentWorkingDir:
  "io_bind (setCurrentWorkingDir w dir) k s =
     (case w_outcome w (trace s) (SetCurrentWorkingDir dir) of
        None \<Rightarrow> k () (s\<lparr>trace := trace s @ [SetCurrentWorkingDir dir],
                         cfg := (cfg s)\<lparr>app_rootDir := dir\<rparr>\<rparr>)
      | Some e \<Rightarrow> (Throw e, s\<lparr>trace := trace s @ [SetCurrentWorkingDir dir]\<rparr>))"
  by (simp add: setCurrentWorkingDir_def io_laws split: option.splits)

lemma bind_runTask_perform:
  "io_bind (runTask title (perform w ev)) k s =
     (case w_outcome w (trace s @ [TaskStart title]) ev of
        None \<Rightarrow> k () (s\<lparr>trace := trace s @ [TaskStart title, ev, TaskDone title]\<rparr>)
      | Some e \<Rightarrow> (Throw e, s\<lparr>trace := trace s @ [TaskStart title, ev]\<rparr>))"
  by (simp add: runTask_def io_laws split: option.splits)

lemma bind_create:
  "io_bind (create w dir appName appId) k s =
     (case w_outcome w (trace s @ [TaskStart (createTitle w dir appName appId)])
             (CpAsync (app_assets_templateDir (cfg s)) dir) of
        None \<Rightarrow>
          k () (s\<lparr>trace := trace s @
                  [TaskStart (createTitle w dir appName appId),
                   CpAsync (app_assets_templateDir (cfg s)) dir,
                   TaskDone (createTitle w dir appName appId)]\<rparr>)
      | Some e \<Rightarrow>
          (Throw e, s\<lparr>trace := trace s @
                  [TaskStart (createTitle w dir appName appId),
                   CpAsync (app_assets_templateDir (cfg s)) dir]\<rparr>))"
  by (simp add: create_def io_bind_assoc io_bind_get_config bind_runTask_perform)

lemma bind_installDeps:
  "io_bind (installDeps w dir) k s =
     (case w_outcome w (trace s @ [TaskStart installTitle])
             (RunCommand (installCommand dir)) of
        None \<Rightarrow>
          k () (s\<lparr>trace := trace s @
                  [TaskStart installTitle, RunCommand (installCommand dir),
                   TaskDone installTitle]\<rparr>)
      | Some e \<Rightarrow>
          (Throw e, s\<lparr>trace := trace s @
                  [TaskStart installTitle, RunCommand (installCommand dir)]\<rparr>))"
  by (simp add: installDeps_def bind_runTask_perform)

lemma bind_addPlatforms:
  "io_bind (addPlatforms w dir) k s =
     (let t = trace s @ [TaskStart (addPlatformsTitle w)] in
      if cli_os (cfg s) = Mac
      then (case w_outcome w t AddIOS of
              Some e \<Rightarrow> (Throw e, s\<lparr>trace := t @ [AddIOS]\<rparr>)
            | None \<Rightarrow>
           (case w_outcome w (t @ [AddIOS]) (Sync (ios_name (cfg s))) of
              Some e \<Rightarrow> (Throw e, s\<lparr>trace := t @ [AddIOS, Sync (ios_name (cfg s))]\<rparr>)
            | None \<Rightarrow>
           (case w_outcome w (t @ [AddIOS, Sync (ios_name (cfg s))]) AddAndroid of
              Some e \<Rightarrow>
                (Throw e, s\<lparr>trace := t @ [AddIOS, Sync (ios_name (cfg s)), AddAndroid]\<rparr>)
            | None \<Rightarrow>
           (case w_outcome w (t @ [AddIOS, Sync (ios_name (cfg s)), AddAndroid])
                   (Sync (android_name (cfg s))) of
              Some e \<Rightarrow>
                (Throw e, s\<lparr>trace := t @ [AddIOS, Sync (ios_name (cfg s)), AddAndroid,
                                            Sync (android_name (cfg s))]\<rparr>)
            | None \<Rightarrow>
                k () (s\<lparr>trace := t @ [AddIOS, Sync (ios_name (cfg s)), AddAndroid,
                                        Sync (android_name (cfg s)),
                                        TaskDone (addPlatformsTitle w)]\<rparr>)))))
      else (case w_outcome w t AddAndroid of
              Some e \<Rightarrow> (Throw e, s\<lparr>trace := t @ [AddAndroid]\<rparr>)
            | None \<Rightarrow>
           (case w_outcome w (t @ [AddAndroid]) (Sync (android_name (cfg s))) of
              Some e \<Rightarrow> (Throw e, s\<lparr>trace := t @ [AddAndroid, Sync (android_name (cfg s))]\<rparr>)
            | None \<Rightarrow>
                k () (s\<lparr>trace := t @ [AddAndroid, Sync (android_name (cfg s)),
                                        TaskDone (addPlatformsTitle w)]\<rparr>))))"
  by (simp add: addPlatforms_def runTask_def io_laws Let_def split: option.splits)

lemma bind_editPlatforms:
  "io_bind (editPlatforms w appName appId) k s =
     (if cli_os (cfg s) = Mac
      then (case w_outcome w (trace s) EditProjectSettingsIOS of
              Some e \<Rightarrow> (Throw e, s\<lparr>trace := trace s @ [EditProjectSettingsIOS]\<rparr>)
            | None \<Rightarrow>
           (case w_outcome w (trace s @ [EditProjectSettingsIOS]) EditProjectSettingsAndroid of
              Some e \<Rightarrow>
                (Throw e, s\<lparr>trace := trace s @ [EditProjectSettingsIOS,
                                                  EditProjectSettingsAndroid]\<rparr>)
            | None \<Rightarrow>
                k () (s\<lparr>trace := trace s @ [EditProjectSettingsIOS,
                                              EditProjectSettingsAndroid]\<rparr>)))
      else (case w_outcome w (trace s) EditProjectSettingsAndroid of
              Some e \<Rightarrow> (Throw e, s\<lparr>trace := trace s @ [EditProjectSettingsAndroid]\<rparr>)
            | None \<Rightarrow> k () (s\<lparr>trace := trace s @ [EditProjectSettingsAndroid]\<rparr>)))"
  by (simp add: editPlatforms_def io_laws split: option.splits)

lemma printNextSteps_run:
  "printNextSteps w s = (Return (), s\<lparr>trace := trace s @ nextSteps w (app_rootDir (cfg s))\<rparr>)"
  by (simp add: printNextSteps_def nextSteps_def io_laws log_def emit_def)

subsection \<open>Input resolution\<close>

text \<open>
  Claim C6. For each of directory, app name and app id, a non-empty value from the caller
  is returned as it is and nothing is asked. An empty value shows one prompt; a blank
  answer becomes \<open>App\<close> for the name and \<open>com.example.app\<close> for the id, and stays the
  empty string for the directory, which has no default.
\<close>

theorem input_resolution:
  "(dir \<noteq> [] \<longrightarrow> getDir w dir s = (Return dir, s)) \<and>
   (name \<noteq> [] \<longrightarrow> getName w name s = (Return name, s)) \<and>
   (ident \<noteq> [] \<longrightarrow> getAppId w ident s = (Return ident, s)) \<and>
   getDir w [] s =
     (Return (w_answer w ''dir''),
      s\<lparr>trace := trace s @ [Prompt ''dir'' None ''Directory for new app'']\<rparr>) \<and>
   getName w [] s =
     (Return (if w_answer w ''name'' = [] then ''App'' else w_answer w ''name''),
      s\<lparr>trace := trace s @ [Prompt ''name'' (Some ''App'') ''App name'']\<rparr>) \<and>
   getAppId w [] s =
     (Return (if w_answer w ''id'' = [] then ''com.example.app'' else w_answer w ''id''),
      s\<lparr>trace := trace s @ [Prompt ''id'' (Some ''com.example.app'') ''App/Bundle ID'']\<rparr>)"
  by (simp add: getDir_def getName_def getAppId_def inquirer_prompt_def io_return_def
      io_bind_emit)

theorem input_resolution_witness:
  "getDir quiet_world ''myapp'' \<lparr>cfg = linux_config, trace = []\<rparr> =
     (Return ''myapp'', \<lparr>cfg = linux_config, trace = []\<rparr>) \<and>
   getName quiet_world ''My App'' \<lparr>cfg = linux_config, trace = []\<rparr> =
     (Return ''My App'', \<lparr>cfg = linux_config, trace = []\<rparr>) \<and>
   getAppId quiet_world ''com.example.myapp'' \<lparr>cfg = linux_config, trace = []\<rparr> =
     (Return ''com.example.myapp'', \<lparr>cfg = linux_config, trace = []\<rparr>) \<and>
   getDir quiet_world [] \<lparr>cfg = linux_config, trace = []\<rparr> =
     (Return [],
      \<lparr>cfg = linux_config, trace = [Prompt ''dir'' None ''Directory for new app'']\<rparr>) \<and>
   getName quiet_world [] \<lparr>cfg = linux_config, trace = []\<rparr> =
     (Return ''App'',
      \<lparr>cfg = linux_config, trace = [Prompt ''name'' (Some ''App'') ''App name'']\<rparr>) \<and>
   getAppId quiet_world [] \<lparr>cfg = linux_config, trace = []\<rparr> =
     (Return ''com.example.app'',
      \<lparr>cfg = linux_config,
         trace = [Prompt ''id'' (Some ''com.example.app'') ''App/Bundle ID'']\<rparr>)"
  using input_resolution [of "''myapp''" quiet_world "\<lparr>cfg = linux_config, trace = []\<rparr>"
      "''My App''" "''com.example.myapp''"]
  by (simp add: quiet_world_def)

subsection \<open>Validation\<close>

lemma check_Cons_pass:
  "f config s = (Return None, s') \<Longrightarrow> check config (f # fs) s = check config fs s'"
  by (simp add: io_bind_def)

lemma check_Cons_Return:
  "check config (f # fs) s = (Return (), s1) \<Longrightarrow>
   \<exists>s'. f config s = (Return None, s') \<and> check config fs s' = (Return (), s1)"
  by (auto simp: io_bind_def io_throw_def split: prod.splits outcome.splits option.splits)

text \<open>
  Claim C7. For every configuration and every sequence of checks: when the checks before
  check \<open>c\<close> have run in order and passed, leaving the state \<open>s1\<close>, and \<open>c\<close> fails there
  with \<open>msg\<close>, leaving \<open>s2\<close>, then \<open>check\<close> throws \<open>msg\<close> and the run is left in \<open>s2\<close>,
  whatever checks \<open>post\<close> come after \<open>c\<close>: none of them has run.
\<close>

theorem check_stops_at_first_failure:
  assumes "check config pre s = (Return (), s1)"
    and "c config s1 = (Return (Some msg), s2)"
  shows "check config (pre @ c # post) s = (Throw (StringValue msg), s2)"
  using assms
proof (induction pre arbitrary: s)
  case Nil
  then show ?case by (simp add: io_bind_def io_return_def io_throw_def)
next
  case (Cons f fs)
  from Cons.prems(1) obtain s' where f: "f config s = (Return None, s')"
    and rest: "check config fs s' = (Return (), s1)"
    using check_Cons_Return by blast
  have "check config (fs @ c # post) s' = (Throw (StringValue msg), s2)"
    using Cons.IH [OF rest Cons.prems(2)] .
  moreover have "check config ((f # fs) @ c # post) s = check config (fs @ c # post) s'"
    using f check_Cons_pass [where f = f and config = config and s = s and s' = s'
        and fs = "fs @ c # post"]
    by (simp del: check.simps)
  ultimately show ?case by simp
qed

text \<open>
  The list of \<open>createCommand\<close>, with an app id that the check rejects: the directory
  check and the id check are called, the name check is not.
\<close>

theorem check_stops_at_first_failure_witness:
  "check linux_config
     [\<lambda>config. checkAppDir strict_world config ''myapp'',
      \<lambda>config. checkAppId strict_world config ''my app'',
      \<lambda>config. checkAppName strict_world config ''My App'']
     \<lparr>cfg = linux_config, trace = []\<rparr> =
   (Throw (StringValue ''Invalid App ID''),
    \<lparr>cfg = linux_config, trace = [CheckAppDir ''myapp'', CheckAppId ''my app'']\<rparr>)"
proof -
  have pre: "check linux_config [\<lambda>config. checkAppDir strict_world config ''myapp'']
               \<lparr>cfg = linux_config, trace = []\<rparr> =
             (Return (), \<lparr>cfg = linux_config, trace = [CheckAppDir ''myapp'']\<rparr>)"
    by (simp add: checkAppDir_def io_laws io_return_def strict_world_def quiet_world_def)
  have c: "(\<lambda>config. checkAppId strict_world config ''my app'') linux_config
             \<lparr>cfg = linux_config, trace = [CheckAppDir ''myapp'']\<rparr> =
           (Return (Some ''Invalid App ID''),
            \<lparr>cfg = linux_config, trace = [CheckAppDir ''myapp'', CheckAppId ''my app'']\<rparr>)"
    by (simp add: checkAppId_def io_laws io_return_def strict_world_def quiet_world_def)
  show ?thesis
    using pre c
      check_stops_at_first_failure
        [where config = linux_config
           and pre = "[\<lambda>config. checkAppDir strict_world config ''myapp'']"
           and c = "\<lambda>config. checkAppId strict_world config ''my app''"
           and post = "[\<lambda>config. checkAppName strict_world config ''My App'']"
           and s = "\<lparr>cfg = linux_config, trace = []\<rparr>"
           and ?s1.0 = "\<lparr>cfg = linux_config, trace = [CheckAppDir ''myapp'']\<rparr>"
           and msg = "''Invalid App ID''"
           and ?s2.0 = "\<lparr>cfg = linux_config,
                          trace = [CheckAppDir ''myapp'', CheckAppId ''my app'']\<rparr>"]
    by (simp del: check.simps)
qed

subsection \<open>Template instantiation\<close>

text \<open>
  Claim C9. Template instantiation is \<open>create\<close> followed by \<open>installDeps\<close>, each its own
  task. The template directory of the configuration is copied into the workspace first;
  if the copy rejects, the installer and every later stage \<open>k\<close> are skipped. Only after
  the copy has completed does the installer run, in the workspace directory, for
  \<open>@capacitor/cli\<close> and \<open>@capacitor/core\<close>; if it rejects, every later stage is skipped.
  Otherwise the later stages run after both tasks have been reported done.
\<close>

theorem template_instantiation:
  "io_bind (create w dir appName appId) (\<lambda>_. io_bind (installDeps w dir) k) s =
     (case w_outcome w (trace s @ [TaskStart (createTitle w dir appName appId)])
             (CpAsync (app_assets_templateDir (cfg s)) dir) of
        Some e \<Rightarrow>
          (Throw e,
           s\<lparr>trace := trace s @
              [TaskStart (createTitle w dir appName appId),
               CpAsync (app_assets_templateDir (cfg s)) dir]\<rparr>)
      | None \<Rightarrow>
     (case w_outcome w
             (trace s @
              [TaskStart (createTitle w dir appName appId),
               CpAsync (app_assets_templateDir (cfg s)) dir,
               TaskDone (createTitle w dir appName appId),
               TaskStart ''Installing dependencies''])
             (RunCommand (''cd '' @ [CHR 0x22] @ dir @ [CHR 0x22] @
                          '' && npm install --save @capacitor/cli @capacitor/core'')) of
        Some e \<Rightarrow>
          (Throw e,
           s\<lparr>trace := trace s @
              [TaskStart (createTitle w dir appName appId),
               CpAsync (app_assets_templateDir (cfg s)) dir,
               TaskDone (createTitle w dir appName appId),
               TaskStart ''Installing dependencies'',
               RunCommand (''cd '' @ [CHR 0x22] @ dir @ [CHR 0x22] @
                           '' && npm install --save @capacitor/cli @capacitor/core'')]\<rparr>)
      | None \<Rightarrow>
          k () (s\<lparr>trace := trace s @
              [TaskStart (createTitle w dir appName appId),
               CpAsync (app_assets_templateDir (cfg s)) dir,
               TaskDone (createTitle w dir appName appId),
               TaskStart ''Installing dependencies'',
               RunCommand (''cd '' @ [CHR 0x22] @ dir @ [CHR 0x22] @
                           '' && npm install --save @capacitor/cli @capacitor/core''),
               TaskDone ''Installing dependencies'']\<rparr>)))"
  by (simp add: bind_create bind_installDeps installCommand_def installTitle_def
      split: option.splits)

theorem template_instantiation_witness:
  "io_bind (create quiet_world ''myapp'' ''My App'' ''com.example.myapp'')
     (\<lambda>_. io_bind (installDeps quiet_world ''myapp'') io_return)
     \<lparr>cfg = linux_config, trace = []\<rparr> =
   (Return (),
    \<lparr>cfg = linux_config,
       trace =
         [TaskStart ''Creating app My App in myapp with id com.example.myapp'',
          CpAsync ''/cli/assets/app-template'' ''myapp'',
          TaskDone ''Creating app My App in myapp with id com.example.myapp'',
          TaskStart ''Installing dependencies'',
          RunCommand (''cd '' @ [CHR 0x22] @ ''myapp'' @ [CHR 0x22] @
                      '' && npm install --save @capacitor/cli @capacitor/core''),
          TaskDone ''Installing dependencies'']\<rparr>)"
  using template_instantiation
    [where w = quiet_world and dir = "''myapp''" and appName = "''My App''"
       and appId = "''com.example.myapp''" and k = io_return
       and s = "\<lparr>cfg = linux_config, trace = []\<rparr>"]
  by (simp add: quiet_world_simps linux_config_def io_return_def createTitle_def chalk_bold_def
      chalk_style_def)

subsection \<open>Platform bootstrap\<close>

lemma editPlatforms_run:
  "editPlatforms w appName appId s = io_bind (editPlatforms w appName appId) io_return s"
  by (simp add: io_bind_unit)

text \<open>
  Claim C5. \<open>addPlatforms\<close> followed by \<open>editPlatforms\<close>, from any state, only adds calls
  to the trace. On macOS the platform calls made are, in this order, add iOS, sync iOS,
  add Android, sync Android, edit iOS settings, edit Android settings: all six when the
  stage returns, and an initial part of them when a call rejects. On any other host they
  are add Android, sync Android, edit Android settings, and neither \<open>addIOS\<close> nor
  \<open>editProjectSettingsIOS\<close> nor a sync of the iOS project name (the two project names
  being different) is called.
\<close>

theorem platform_bootstrap_order:
  "(case io_bind (addPlatforms w dir) (\<lambda>_. editPlatforms w appName appId) s of
      (r, s') \<Rightarrow>
        (let calls = filter is_platform_call (drop (length (trace s)) (trace s'));
             ios = [AddIOS, Sync (ios_name (cfg s))];
             android = [AddAndroid, Sync (android_name (cfg s))]
         in take (length (trace s)) (trace s') = trace s \<and>
            (cli_os (cfg s) = Mac \<longrightarrow>
               prefix calls
                 (ios @ android @ [EditProjectSettingsIOS, EditProjectSettingsAndroid]) \<and>
               (r = Return () \<longrightarrow>
                  calls = ios @ android @ [EditProjectSettingsIOS, EditProjectSettingsAndroid])) \<and>
            (cli_os (cfg s) \<noteq> Mac \<longrightarrow>
               prefix calls (android @ [EditProjectSettingsAndroid]) \<and>
               (r = Return () \<longrightarrow> calls = android @ [EditProjectSettingsAndroid]) \<and>
               AddIOS \<notin> set (drop (length (trace s)) (trace s')) \<and>
               EditProjectSettingsIOS \<notin> set (drop (length (trace s)) (trace s')) \<and>
               (ios_name (cfg s) \<noteq> android_name (cfg s) \<longrightarrow>
                  Sync (ios_name (cfg s)) \<notin> set (drop (length (trace s)) (trace s'))))))"
  by (simp add: bind_addPlatforms editPlatforms_run [of w appName appId] bind_editPlatforms
      io_return_def Let_def split: option.splits)

theorem platform_bootstrap_order_witness:
  "cli_os mac_config = Mac \<and>
   io_bind (addPlatforms quiet_world ''myapp'')
     (\<lambda>_. editPlatforms quiet_world ''My App'' ''com.example.myapp'')
     \<lparr>cfg = mac_config, trace = []\<rparr> =
   (Return (),
    \<lparr>cfg = mac_config,
       trace = [TaskStart (addPlatformsTitle quiet_world), AddIOS, Sync ''ios'', AddAndroid,
                Sync ''android'', TaskDone (addPlatformsTitle quiet_world),
                EditProjectSettingsIOS, EditProjectSettingsAndroid]\<rparr>) \<and>
   cli_os linux_config \<noteq> Mac \<and>
   io_bind (addPlatforms quiet_world ''myapp'')
     (\<lambda>_. editPlatforms quiet_world ''My App'' ''com.example.myapp'')
     \<lparr>cfg = linux_config, trace = []\<rparr> =
   (Return (),
    \<lparr>cfg = linux_config,
       trace = [TaskStart (addPlatformsTitle quiet_world), AddAndroid, Sync ''android'',
                TaskDone (addPlatformsTitle quiet_world), EditProjectSettingsAndroid]\<rparr>)"
proof -
  have mac: "io_bind (addPlatforms quiet_world ''myapp'')
      (\<lambda>_. editPlatforms quiet_world ''My App'' ''com.example.myapp'')
      \<lparr>cfg = mac_config, trace = []\<rparr> =
    (Return (),
     \<lparr>cfg = mac_config,
        trace = [TaskStart (addPlatformsTitle quiet_world), AddIOS, Sync ''ios'', AddAndroid,
                 Sync ''android'', TaskDone (addPlatformsTitle quiet_world),
                 EditProjectSettingsIOS, EditProjectSettingsAndroid]\<rparr>)"
    by (simp add: bind_addPlatforms editPlatforms_run [of quiet_world] bind_editPlatforms
        io_return_def Let_def quiet_world_simps mac_config_def linux_config_def)
  have linux: "io_bind (addPlatforms quiet_world ''myapp'')
      (\<lambda>_. editPlatforms quiet_world ''My App'' ''com.example.myapp'')
      \<lparr>cfg = linux_config, trace = []\<rparr> =
    (Return (),
     \<lparr>cfg = linux_config,
        trace = [TaskStart (addPlatformsTitle quiet_world), AddAndroid, Sync ''android'',
                 TaskDone (addPlatformsTitle quiet_world), EditProjectSettingsAndroid]\<rparr>)"
    by (simp add: bind_addPlatforms editPlatforms_run [of quiet_world] bind_editPlatforms
        io_return_def Let_def quiet_world_simps linux_config_def)
  show ?thesis
    using platform_bootstrap_order
      [where w = quiet_world and dir = "''myapp''" and appName = "''My App''"
         and appId = "''com.example.myapp''" and s = "\<lparr>cfg = mac_config, trace = []\<rparr>"]
      platform_bootstrap_order
      [where w = quiet_world and dir = "''myapp''" and appName = "''My App''"
         and appId = "''com.example.myapp''" and s = "\<lparr>cfg = linux_config, trace = []\<rparr>"]
      mac linux
    by (simp add: mac_config_def linux_config_def)
qed

subsection \<open>The whole run\<close>

lemmas stage_binds =
  bind_checks bind_getDir bind_getName bind_getAppId bind_makeDirectory
  bind_setCurrentWorkingDir bind_create bind_installDeps bind_addPlatforms bind_editPlatforms
  printNextSteps_run

lemmas try_unfold =
  createCommand_try_def stage_binds io_laws getOrCreateConfig_def copy_def Let_def

lemmas fullRun_defs = fullRun_def resolutionCalls_def buildCalls_def addCalls_def editCalls_def

lemmas fullRun_explicit = fullRun_defs nextSteps_def dirPrompt_def namePrompt_def idPrompt_def

lemma no_config_call_in_dirPrompt: "GetOrCreateConfig \<notin> set (dirPrompt d)"
  by (simp add: dirPrompt_def)

text \<open>
  What the \<open>try\<close> block can end in. When it returns, it has made the calls of \<open>fullRun\<close>;
  when a call rejects, it has made an initial part of them; when \<open>logFatal\<close> ends the
  process, the directory was found to exist.
\<close>

lemma try_outcomes:
  "case createCommand_try w dir name ident \<lparr>cfg = config, trace = []\<rparr> of
     (Return u, s1) \<Rightarrow>
        trace s1 = fullRun w config dir name ident \<and>
        cfg s1 = config\<lparr>app_rootDir := appDir_of w dir, app_appName := appName_of w name,
                         app_appId := appId_of w ident, app_bundledWebRuntime := True\<rparr> \<and>
        w_checkAppDir w config dir = None \<and> w_checkAppId w config ident = None \<and>
        w_checkAppName w config name = None
   | (Throw e, s1) \<Rightarrow>
        prefix (trace s1) (fullRun w config dir name ident) \<and>
        (GetOrCreateConfig \<in> set (trace s1) \<longrightarrow>
           cfg s1 = config\<lparr>app_rootDir := appDir_of w dir, app_appName := appName_of w name,
                            app_appId := appId_of w ident, app_bundledWebRuntime := True\<rparr> \<and>
           w_checkAppDir w config dir = None \<and> w_checkAppId w config ident = None \<and>
           w_checkAppName w config name = None)
   | (Exited n, s1) \<Rightarrow>
        n = 1 \<and> w_exists w (appDir_of w dir) \<and> cfg s1 = config \<and>
        trace s1 =
          [CheckAppDir dir, CheckAppId ident, CheckAppName name, Log (welcomeMessage w)] @
          dirPrompt dir @
          [ExistsAsync (appDir_of w dir),
           LogFatal (StringValue (directoryExistsMessage w (appDir_of w dir))), Exit 1]"
  by (simp add: try_unfold fullRun_defs no_config_call_in_dirPrompt del: check.simps
      split: option.splits)

lemma createCommand_catch_run:
  "createCommand_catch e s =
     (Exited 1,
      s\<lparr>trace := trace s @
           (if is_string e then [Log usageMessage, Log exampleMessage] else []) @
           [LogFatal e, Exit 1]\<rparr>)"
  by (simp add: createCommand_catch_def io_laws logFatal_def)

lemma createCommand_by_try:
  "createCommand w config dir name ident =
     (case createCommand_try w dir name ident \<lparr>cfg = config, trace = []\<rparr> of
        (Throw e, s1) \<Rightarrow>
          (Exited 1,
           s1\<lparr>trace := trace s1 @
                (if is_string e then [Log usageMessage, Log exampleMessage] else []) @
                [LogFatal e, Exit 1]\<rparr>)
      | (Return u, s1) \<Rightarrow> (Return u, s1)
      | (Exited n, s1) \<Rightarrow> (Exited n, s1))"
  by (simp add: createCommand_def io_catch_def createCommand_catch_run
      split: prod.splits outcome.splits)

text \<open>The \<open>try\<close> block when a check fails.\<close>

lemma try_check_fails:
  "w_checkAppDir w config dir = Some m \<Longrightarrow>
     createCommand_try w dir name ident \<lparr>cfg = config, trace = []\<rparr> =
       (Throw (StringValue m), \<lparr>cfg = config, trace = [CheckAppDir dir]\<rparr>)"
  "w_checkAppDir w config dir = None \<Longrightarrow> w_checkAppId w config ident = Some m \<Longrightarrow>
     createCommand_try w dir name ident \<lparr>cfg = config, trace = []\<rparr> =
       (Throw (StringValue m), \<lparr>cfg = config, trace = [CheckAppDir dir, CheckAppId ident]\<rparr>)"
  "w_checkAppDir w config dir = None \<Longrightarrow> w_checkAppId w config ident = None \<Longrightarrow>
   w_checkAppName w config name = Some m \<Longrightarrow>
     createCommand_try w dir name ident \<lparr>cfg = config, trace = []\<rparr> =
       (Throw (StringValue m),
        \<lparr>cfg = config, trace = [CheckAppDir dir, CheckAppId ident, CheckAppName name]\<rparr>)"
  by (simp_all add: createCommand_try_def io_bind_get_config bind_checks del: check.simps)

text \<open>A run in which every check passes, the directory is new and no call rejects.\<close>

lemma quiet_run_succeeds:
  assumes "w_checkAppDir w config dir = None" "w_checkAppId w config ident = None"
    "w_checkAppName w config name = None" "\<not> w_exists w (appDir_of w dir)"
    "w_outcome w = (\<lambda>_ _. None)"
  shows "createCommand w config dir name ident =
     (Return (),
      \<lparr>cfg = config\<lparr>app_rootDir := appDir_of w dir, app_appName := appName_of w name,
                      app_appId := appId_of w ident, app_bundledWebRuntime := True\<rparr>,
       trace = fullRun w config dir name ident\<rparr>)"
  using assms
  by (simp add: createCommand_by_try try_unfold fullRun_defs del: check.simps)

lemma linux_run:
  "createCommand quiet_world linux_config ''myapp'' ''My App'' ''com.example.myapp'' =
     (Return (),
      \<lparr>cfg = linux_config\<lparr>app_rootDir := ''myapp'', app_appName := ''My App'',
                      app_appId := ''com.example.myapp'', app_bundledWebRuntime := True\<rparr>,
       trace = fullRun quiet_world linux_config ''myapp'' ''My App'' ''com.example.myapp''\<rparr>)"
  using quiet_run_succeeds
    [where w = quiet_world and config = linux_config and dir = "''myapp''"
       and name = "''My App''" and ident = "''com.example.myapp''"]
  by (simp add: quiet_world_def appDir_of_def appName_of_def appId_of_def)

lemma linux_trace:
  "fullRun quiet_world linux_config ''myapp'' ''My App'' ''com.example.myapp'' =
    [CheckAppDir ''myapp'', CheckAppId ''com.example.myapp'', CheckAppName ''My App'',
     Log (welcomeMessage quiet_world),
     ExistsAsync ''myapp'', MkdirAsync ''myapp'', SetCurrentWorkingDir ''myapp'',
     GetOrCreateConfig,
     TaskStart (createTitle quiet_world ''myapp'' ''My App'' ''com.example.myapp''),
     CpAsync ''/cli/assets/app-template'' ''myapp'',
     TaskDone (createTitle quiet_world ''myapp'' ''My App'' ''com.example.myapp''),
     TaskStart installTitle, RunCommand (installCommand ''myapp''), TaskDone installTitle,
     TaskStart (addPlatformsTitle quiet_world),
     AddAndroid, Sync ''android'',
     TaskDone (addPlatformsTitle quiet_world),
     EditProjectSettingsAndroid,
     Copy ''web'',
     Log (readyMessage quiet_world), Log nextStepsMessage, Log (changeDirMessage ''myapp''),
     Log workflowMessage]"
  by (simp add: fullRun_explicit appDir_of_def appName_of_def appId_of_def linux_config_def)

subsection \<open>Validation failures\<close>

text \<open>
  Claim C3. For every input triple, if any of the three checks fails, the run ends with
  exit status 1, the configuration is unchanged, and no call that changes the filesystem
  is made: the trace holds the checks up to the failing one, the two usage lines, the
  fatal report of the check's message, and the exit; no prompt, no directory, no copy, no
  subprocess.
\<close>

theorem validation_failure_no_mutation:
  assumes "w_checkAppDir w config dir \<noteq> None \<or> w_checkAppId w config ident \<noteq> None \<or>
           w_checkAppName w config name \<noteq> None"
  shows "fst (createCommand w config dir name ident) = Exited 1 \<and>
         cfg (snd (createCommand w config dir name ident)) = config \<and>
         \<not> list_ex mutating (trace (snd (createCommand w config dir name ident))) \<and>
         (\<exists>n msg. 0 < n \<and> n \<le> 3 \<and>
            trace (snd (createCommand w config dir name ident)) =
              take n [CheckAppDir dir, CheckAppId ident, CheckAppName name] @
              [Log usageMessage, Log exampleMessage, LogFatal (StringValue msg), Exit 1])"
proof (cases "w_checkAppDir w config dir")
  case (Some m)
  then have run: "createCommand w config dir name ident =
      (Exited 1, \<lparr>cfg = config, trace = [CheckAppDir dir, Log usageMessage, Log exampleMessage,
                                         LogFatal (StringValue m), Exit 1]\<rparr>)"
    by (simp add: createCommand_by_try try_check_fails)
  show ?thesis by (simp add: run) (rule exI [of _ 1], simp)
next
  case dir_ok: None
  show ?thesis
  proof (cases "w_checkAppId w config ident")
    case (Some m)
    with dir_ok have run: "createCommand w config dir name ident =
        (Exited 1, \<lparr>cfg = config, trace = [CheckAppDir dir, CheckAppId ident, Log usageMessage,
                                           Log exampleMessage, LogFatal (StringValue m), Exit 1]\<rparr>)"
      by (simp add: createCommand_by_try try_check_fails)
    show ?thesis by (simp add: run) (rule exI [of _ 2], simp)
  next
    case id_ok: None
    with dir_ok assms obtain m where m: "w_checkAppName w config name = Some m" by auto
    with dir_ok id_ok have run: "createCommand w config dir name ident =
        (Exited 1, \<lparr>cfg = config, trace = [CheckAppDir dir, CheckAppId ident, CheckAppName name,
                       Log usageMessage, Log exampleMessage, LogFatal (StringValue m), Exit 1]\<rparr>)"
      by (simp add: createCommand_by_try try_check_fails)
    show ?thesis by (simp add: run) (rule exI [of _ 3], simp)
  qed
qed

lemma strict_world_simps:
  "w_checkAppDir strict_world c d = None"
  "w_checkAppId strict_world c i =
     (if i = [] \<or> CHR '' '' \<in> set i then Some ''Invalid App ID'' else None)"
  "w_checkAppName strict_world c n = (if n = [] then Some ''Must provide an app name'' else None)"
  "w_answer strict_world q = (if q = ''dir'' then ''myapp'' else [])"
  "w_exists strict_world d = False"
  "w_outcome strict_world = (\<lambda>_ _. None)"
  by (simp_all add: strict_world_def quiet_world_def)

theorem validation_failure_no_mutation_witness:
  "w_checkAppId strict_world linux_config ''my app'' = Some ''Invalid App ID'' \<and>
   fst (createCommand strict_world linux_config ''myapp'' ''My App'' ''my app'') = Exited 1 \<and>
   cfg (snd (createCommand strict_world linux_config ''myapp'' ''My App'' ''my app'')) =
     linux_config \<and>
   trace (snd (createCommand strict_world linux_config ''myapp'' ''My App'' ''my app'')) =
     [CheckAppDir ''myapp'', CheckAppId ''my app'', Log usageMessage, Log exampleMessage,
      LogFatal (StringValue ''Invalid App ID''), Exit 1] \<and>
   \<not> list_ex mutating
       (trace (snd (createCommand strict_world linux_config ''myapp'' ''My App'' ''my app'')))"
proof -
  have fails: "w_checkAppDir strict_world linux_config ''myapp'' \<noteq> None \<or>
      w_checkAppId strict_world linux_config ''my app'' \<noteq> None \<or>
      w_checkAppName strict_world linux_config ''My App'' \<noteq> None"
    by (simp add: strict_world_simps)
  have run: "createCommand strict_world linux_config ''myapp'' ''My App'' ''my app'' =
      (Exited 1,
       \<lparr>cfg = linux_config,
          trace = [CheckAppDir ''myapp'', CheckAppId ''my app'', Log usageMessage,
                   Log exampleMessage, LogFatal (StringValue ''Invalid App ID''), Exit 1]\<rparr>)"
    by (simp add: createCommand_by_try try_check_fails(2) strict_world_simps)
  show ?thesis
    using validation_failure_no_mutation [OF fails]
    by (simp add: run strict_world_simps)
qed

subsection \<open>Provisioning an existing directory\<close>

lemma replace_all_absent: "pat \<noteq> [] \<Longrightarrow> hd pat \<notin> set s \<Longrightarrow> replace_all pat rep s = s"
  by (induction s) (auto simp: prefix_def neq_Nil_conv)

lemma reopen_at_breaks_no_break:
  "CHR 0x0A \<notin> set s \<Longrightarrow> reopen_at_breaks opn cls s = s"
  by (induction opn cls s rule: reopen_at_breaks.induct) auto

lemma chalk_bold_plain:
  assumes "CHR 0x0A \<notin> set s" and "CHR 0x1B \<notin> set s" and "w_colour w" and "s \<noteq> []"
  shows "chalk_bold w s = (ESC @ ''[1m'') @ s @ (ESC @ ''[22m'')"
proof -
  have "replace_all (ESC @ ''[22m'') (ESC @ ''[1m'') s = s"
    using assms(2) by (intro replace_all_absent) (simp_all add: ESC_def)
  moreover have "CHR 0x0A \<notin> set ((ESC @ ''[1m'') @ s @ (ESC @ ''[22m''))"
    using assms(1) by (simp add: ESC_def)
  ultimately show ?thesis
    using assms(3,4) by (simp add: chalk_bold_def chalk_style_def reopen_at_breaks_no_break)
qed

lemma sublist_chalk_bold:
  assumes "\<not> w_colour w \<or> (CHR 0x0A \<notin> set s \<and> CHR 0x1B \<notin> set s)"
  shows "sublist s (chalk_bold w s)"
proof (cases "\<not> w_colour w \<or> s = []")
  case True
  then show ?thesis by (auto simp: chalk_bold_def chalk_style_def)
next
  case False
  with assms have "chalk_bold w s = (ESC @ ''[1m'') @ s @ (ESC @ ''[22m'')"
    by (intro chalk_bold_plain) auto
  then show ?thesis unfolding sublist_def by blast
qed

lemma sublist_directoryExistsMessage:
  assumes "\<not> w_colour w \<or> (CHR 0x0A \<notin> set dir \<and> CHR 0x1B \<notin> set dir)"
  shows "sublist dir (directoryExistsMessage w dir)"
proof -
  from sublist_chalk_bold [OF assms] obtain ps ss where "chalk_bold w dir = ps @ dir @ ss"
    by (auto simp: sublist_def)
  then have "directoryExistsMessage w dir =
      (''The directory '' @ ps) @ dir @
      (ss @ '' already exists. Please remove it before creating your app'')"
    by (simp add: directoryExistsMessage_def)
  then show ?thesis unfolding sublist_def by blast
qed

text \<open>
  Claim C4. For every path that already exists, \<open>makeDirectory\<close> ends the process with
  status 1 after reporting a message built around the path, set in bold (the path stands
  in the message as it is when there is no colour support, and when it has neither a line
  break nor an escape character); \<open>mkdirAsync\<close> is not called and the rest of the run,
  whatever it is, is not run. In \<open>createCommand\<close>, when the
  checks pass and the resolved directory exists, the trace ends with \<open>existsAsync\<close>, the
  fatal report and the exit, and the configuration is the caller's: no directory, no
  configuration file, no template copy, no install, no platform.
\<close>

theorem existing_directory_is_fatal:
  "(w_exists w dir \<longrightarrow>
      io_bind (makeDirectory w dir) k s =
        (Exited 1,
         s\<lparr>trace := trace s @
              [ExistsAsync dir, LogFatal (StringValue (directoryExistsMessage w dir)),
               Exit 1]\<rparr>) \<and>
      directoryExistsMessage w dir =
        ''The directory '' @ chalk_bold w dir @
        '' already exists. Please remove it before creating your app'' \<and>
      (\<not> w_colour w \<or> (CHR 0x0A \<notin> set dir \<and> CHR 0x1B \<notin> set dir) \<longrightarrow>
         sublist dir (directoryExistsMessage w dir))) \<and>
   (w_checkAppDir w config d = None \<and> w_checkAppId w config ident = None \<and>
    w_checkAppName w config name = None \<and> w_exists w (appDir_of w d) \<longrightarrow>
      createCommand w config d name ident =
        (Exited 1,
         \<lparr>cfg = config,
            trace =
              [CheckAppDir d, CheckAppId ident, CheckAppName name, Log (welcomeMessage w)] @
              dirPrompt d @
              [ExistsAsync (appDir_of w d),
               LogFatal (StringValue (directoryExistsMessage w (appDir_of w d))),
               Exit 1]\<rparr>))"
proof -
  have "createCommand w config d name ident =
        (Exited 1,
         \<lparr>cfg = config,
            trace =
              [CheckAppDir d, CheckAppId ident, CheckAppName name, Log (welcomeMessage w)] @
              dirPrompt d @
              [ExistsAsync (appDir_of w d),
               LogFatal (StringValue (directoryExistsMessage w (appDir_of w d))),
               Exit 1]\<rparr>)"
    if "w_checkAppDir w config d = None" "w_checkAppId w config ident = None"
       "w_checkAppName w config name = None" "w_exists w (appDir_of w d)"
    using that
    by (simp add: createCommand_by_try createCommand_try_def io_bind_get_config bind_checks
        io_bind_log bind_getDir bind_makeDirectory del: check.simps)
  then show ?thesis
    by (simp add: bind_makeDirectory sublist_directoryExistsMessage)
       (simp add: directoryExistsMessage_def)
qed

theorem existing_directory_is_fatal_witness:
  "w_exists occupied_world ''myapp'' \<and>
   createCommand occupied_world linux_config ''myapp'' ''My App'' ''com.example.myapp'' =
     (Exited 1,
      \<lparr>cfg = linux_config,
         trace =
           [CheckAppDir ''myapp'', CheckAppId ''com.example.myapp'', CheckAppName ''My App'',
            Log (welcomeMessage occupied_world), ExistsAsync ''myapp'',
            LogFatal (StringValue
              ''The directory myapp already exists. Please remove it before creating your app''),
            Exit 1]\<rparr>) \<and>
   sublist ''myapp''
     ''The directory myapp already exists. Please remove it before creating your app''"
  using existing_directory_is_fatal
    [where w = occupied_world and dir = "''myapp''" and k = io_return
       and s = "\<lparr>cfg = linux_config, trace = []\<rparr>" and config = linux_config
       and d = "''myapp''" and name = "''My App''" and ident = "''com.example.myapp''"]
  by (simp add: occupied_world_def quiet_world_def appDir_of_def dirPrompt_def
      directoryExistsMessage_def chalk_bold_def chalk_style_def)

subsection \<open>The catch block\<close>

text \<open>
  Claim C8. For every value \<open>e\<close> the \<open>try\<close> block throws, \<open>createCommand\<close> adds to the
  trace the two usage lines exactly when \<open>e\<close> is a string, then the fatal report of \<open>e\<close>
  and the exit with status 1, and that is how the run ends. The usage line appears in
  the trace of the run if and only if \<open>e\<close> is a string.
\<close>

theorem catch_reports_failure:
  assumes "createCommand_try w dir name ident \<lparr>cfg = config, trace = []\<rparr> = (Throw e, s1)"
  shows "createCommand w config dir name ident =
           (Exited 1,
            s1\<lparr>trace := trace s1 @
                 (if is_string e then [Log usageMessage, Log exampleMessage] else []) @
                 [LogFatal e, Exit 1]\<rparr>) \<and>
         (Log usageMessage \<in> set (trace (snd (createCommand w config dir name ident))) \<longleftrightarrow>
            is_string e)"
proof -
  have run: "createCommand w config dir name ident =
           (Exited 1,
            s1\<lparr>trace := trace s1 @
                 (if is_string e then [Log usageMessage, Log exampleMessage] else []) @
                 [LogFatal e, Exit 1]\<rparr>)"
    using assms by (simp add: createCommand_by_try)
  have "prefix (trace s1) (fullRun w config dir name ident)"
    using try_outcomes [where w = w and dir = dir and name = name and ident = ident
        and config = config] assms
    by simp
  then have "set (trace s1) \<subseteq> set (fullRun w config dir name ident)"
    by (rule set_mono_prefix)
  moreover have "Log usageMessage \<notin> set (fullRun w config dir name ident)"
    by (simp add: fullRun_explicit usageMessage_def welcomeMessage_def readyMessage_def
        chalk_green_def chalk_style_def ESC_def nextStepsMessage_def changeDirMessage_def
        workflowMessage_def)
  ultimately have "Log usageMessage \<notin> set (trace s1)" by blast
  then show ?thesis by (simp add: run)
qed

lemma readonly_world_simps:
  "w_checkAppDir readonly_world c d = None"
  "w_checkAppId readonly_world c i = None"
  "w_checkAppName readonly_world c n = None"
  "w_exists readonly_world d = False"
  "w_outcome readonly_world t e = (if is_mkdir e then Some (OtherValue ''EACCES'') else None)"
  by (simp_all add: readonly_world_def quiet_world_def)

text \<open>A rejected app id (a string is thrown) and a rejected \<open>mkdirAsync\<close> (an error object).\<close>

theorem catch_reports_failure_witness:
  "createCommand strict_world linux_config ''myapp'' ''My App'' ''my app'' =
     (Exited 1,
      \<lparr>cfg = linux_config,
         trace = [CheckAppDir ''myapp'', CheckAppId ''my app'', Log usageMessage,
                  Log exampleMessage, LogFatal (StringValue ''Invalid App ID''), Exit 1]\<rparr>) \<and>
   createCommand readonly_world linux_config ''myapp'' ''My App'' ''com.example.myapp'' =
     (Exited 1,
      \<lparr>cfg = linux_config,
         trace = [CheckAppDir ''myapp'', CheckAppId ''com.example.myapp'',
                  CheckAppName ''My App'', Log (welcomeMessage readonly_world),
                  ExistsAsync ''myapp'', MkdirAsync ''myapp'',
                  LogFatal (OtherValue ''EACCES''), Exit 1]\<rparr>)"
proof -
  have a: "createCommand_try strict_world ''myapp'' ''My App'' ''my app''
             \<lparr>cfg = linux_config, trace = []\<rparr> =
           (Throw (StringValue ''Invalid App ID''),
            \<lparr>cfg = linux_config, trace = [CheckAppDir ''myapp'', CheckAppId ''my app'']\<rparr>)"
    by (simp add: try_check_fails(2) strict_world_simps)
  have b: "createCommand_try readonly_world ''myapp'' ''My App'' ''com.example.myapp''
             \<lparr>cfg = linux_config, trace = []\<rparr> =
           (Throw (OtherValue ''EACCES''),
            \<lparr>cfg = linux_config,
               trace = [CheckAppDir ''myapp'', CheckAppId ''com.example.myapp'',
                        CheckAppName ''My App'', Log (welcomeMessage readonly_world),
                        ExistsAsync ''myapp'', MkdirAsync ''myapp'']\<rparr>)"
    by (simp add: createCommand_try_def io_bind_get_config bind_checks io_bind_log bind_getDir
        bind_makeDirectory readonly_world_simps appDir_of_def dirPrompt_def del: check.simps)
  show ?thesis
    using catch_reports_failure [OF a] catch_reports_failure [OF b] by simp
qed

subsection \<open>The web asset copy\<close>

text \<open>
  Claim C10. On every run that returns, the trace is: the calls up to the settings edit of
  the Android project (the last call of \<open>editPlatforms\<close>), then one call
  \<open>copy(config, config.web.name)\<close>, then the four lines of the final report, the first
  of which says that the app is ready. No other call of \<open>copy\<close> is made.
\<close>

theorem web_asset_copy_stage:
  assumes "fst (createCommand w config dir name ident) = Return ()"
  shows "trace (snd (createCommand w config dir name ident)) =
           resolutionCalls w dir name ident @
           buildCalls w config (appDir_of w dir) (appName_of w name) (appId_of w ident) @
           [Copy (web_name config)] @
           nextSteps w (appDir_of w dir) \<and>
         last (buildCalls w config (appDir_of w dir) (appName_of w name) (appId_of w ident)) =
           EditProjectSettingsAndroid \<and>
         hd (nextSteps w (appDir_of w dir)) = Log (readyMessage w) \<and>
         \<not> list_ex is_copy
             (resolutionCalls w dir name ident @
              buildCalls w config (appDir_of w dir) (appName_of w name) (appId_of w ident) @
              nextSteps w (appDir_of w dir))"
proof -
  obtain r s1 where tr: "createCommand_try w dir name ident \<lparr>cfg = config, trace = []\<rparr> = (r, s1)"
    by (cases "createCommand_try w dir name ident \<lparr>cfg = config, trace = []\<rparr>")
  with assms have r: "r = Return ()"
    by (cases r) (simp_all add: createCommand_by_try)
  with tr try_outcomes [where w = w and dir = dir and name = name and ident = ident
      and config = config]
  have "trace s1 = fullRun w config dir name ident" by simp
  with tr r have "trace (snd (createCommand w config dir name ident)) =
      fullRun w config dir name ident"
    by (simp add: createCommand_by_try)
  then show ?thesis
    by (simp add: fullRun_def)
       (simp add: resolutionCalls_def buildCalls_def addCalls_def editCalls_def nextSteps_def
          dirPrompt_def namePrompt_def idPrompt_def)
qed

theorem web_asset_copy_stage_witness:
  "fst (createCommand quiet_world linux_config ''myapp'' ''My App'' ''com.example.myapp'') =
     Return () \<and>
   trace (snd (createCommand quiet_world linux_config ''myapp'' ''My App''
                 ''com.example.myapp'')) =
    [CheckAppDir ''myapp'', CheckAppId ''com.example.myapp'', CheckAppName ''My App'',
     Log (welcomeMessage quiet_world),
     ExistsAsync ''myapp'', MkdirAsync ''myapp'', SetCurrentWorkingDir ''myapp'',
     GetOrCreateConfig,
     TaskStart (createTitle quiet_world ''myapp'' ''My App'' ''com.example.myapp''),
     CpAsync ''/cli/assets/app-template'' ''myapp'',
     TaskDone (createTitle quiet_world ''myapp'' ''My App'' ''com.example.myapp''),
     TaskStart installTitle, RunCommand (installCommand ''myapp''), TaskDone installTitle,
     TaskStart (addPlatformsTitle quiet_world),
     AddAndroid, Sync ''android'',
     TaskDone (addPlatformsTitle quiet_world),
     EditProjectSettingsAndroid,
     Copy ''web'',
     Log (readyMessage quiet_world), Log nextStepsMessage, Log (changeDirMessage ''myapp''),
     Log workflowMessage]"
proof -
  have ok: "fst (createCommand quiet_world linux_config ''myapp'' ''My App''
                   ''com.example.myapp'') = Return ()"
    by (simp add: linux_run)
  show ?thesis
    using web_asset_copy_stage [OF ok] by (simp add: linux_run linux_trace)
qed

subsection \<open>When a missing parameter is resolved\<close>













subsection \<open>The app name and id that are set\<close>







end
